theory Spec2Isabelle
  imports Main "HOL-Library.Word"
begin

unbundle bit_operations_syntax

section \<open>The ledger state of \<open>packages/ledgerstate/reality.go\<close>\<close>

subsection \<open>Identifiers\<close>

text \<open>
  Modelled from the spec: the identifier types are declared outside \<open>reality.go\<close>. The
  spec (section 3) makes every id an opaque fixed-length byte string of 32 bytes, so each
  is a 256-bit word. \<open>bookTransfer\<close> copies a transfer hash into a reality id byte by
  byte (\<open>copy(targetRealityId[:], transferHash[:])\<close>, \<open>ToRealityId\<close>): on words
  of one width that cast is the identity. A conflict id is derived deterministically from
  the pair (transfer hash, address hash) of the contested output; it is kept as that pair.
\<close>

type_synonym RealityId = "256 word"
type_synonym TransferHash = "256 word"
type_synonym AddressHash = "256 word"
type_synonym Color = "256 word"
type_synonym ConflictId = "TransferHash \<times> AddressHash"
type_synonym TransferOutputReference = "TransferHash \<times> AddressHash"

text \<open>
  Modelled from the spec: \<open>emptyRealityId\<close> is the sentinel "unassigned" that an output
  carries before its first booking; it is the zero value of the array type.
\<close>

definition emptyRealityId :: RealityId where
  "emptyRealityId = 0"

text \<open>
  Modelled from the spec: \<open>MAIN_REALITY_ID\<close> is the distinguished id of the root
  reality. Its bytes are declared outside \<open>reality.go\<close>; the spec keeps it apart
  from the sentinel (an output booked into MAIN has a non-empty reality id). Nothing
  below uses more of it than that it differs from \<open>emptyRealityId\<close>.
\<close>

definition MAIN_REALITY_ID :: RealityId where
  "MAIN_REALITY_ID = 1"

definition ToRealityId :: "TransferHash \<Rightarrow> RealityId" where
  "ToRealityId transferHash = transferHash"

definition NewConflictSetId :: "TransferHash \<Rightarrow> AddressHash \<Rightarrow> ConflictId" where
  "NewConflictSetId transferHash addressHash = (transferHash, addressHash)"

definition NewTransferOutputReference ::
  "TransferHash \<Rightarrow> AddressHash \<Rightarrow> TransferOutputReference" where
  "NewTransferOutputReference transferHash addressHash = (transferHash, addressHash)"

subsection \<open>Id sets\<close>

text \<open>
  \<open>RealityIdSet\<close> and \<open>ConflictIdSet\<close> are Go maps from an id to \<open>void\<close>. A set
  is a duplicate-free list here: its order stands for one order in which Go may range over
  the map, and \<open>len\<close> is its length.
\<close>

definition NewRealityIdSet :: "RealityId list \<Rightarrow> RealityId list" where
  "NewRealityIdSet ids = remdups ids"

definition Add :: "'a \<Rightarrow> 'a list \<Rightarrow> 'a list" where
  "Add x xs = (if x \<in> set xs then xs else xs @ [x])"

definition Remove :: "'a \<Rightarrow> 'a list \<Rightarrow> 'a list" where
  "Remove x xs = filter (\<lambda>y. y \<noteq> x) xs"

subsection \<open>Entities\<close>

record ColoredBalance =
  color :: Color
  balance :: "64 word"

record TransferOutput =
  realityId :: RealityId
  transferHash :: TransferHash
  addressHash :: AddressHash
  balances :: "ColoredBalance list"
  consumers :: "(TransferHash \<times> AddressHash list) list"

record Conflict =
  conflict_id :: ConflictId
  conflict_realities :: "RealityId list"

record Reality =
  reality_id :: RealityId
  parentRealityIds :: "RealityId list"
  conflictIds :: "ConflictId list"
  transferOutputCount :: "32 word"

text \<open>
  The key of the bookings index: reality id, address hash, spent flag, transfer hash
  (\<open>generateTransferOutputBookingStorageKey\<close>).
\<close>

type_synonym BookingKey = "RealityId \<times> AddressHash \<times> bool \<times> TransferHash"

text \<open>
  The ledger state holds the four object stores. Modelled from the spec (section 4.A):
  a store maps a key to the one in-memory object cached under it, a handle is the key,
  \<open>Exists\<close> is membership, \<open>Store\<close> puts the object under its key (in place of
  an object stored there before), \<open>Delete\<close> removes the key, \<open>Consume\<close> runs its
  function only on an object that exists, and a mutation of an object reached through a
  handle is seen by every later load. Storage failures are not modelled: a \<open>Load\<close>
  never returns an error.
\<close>

record LedgerState =
  realities :: "RealityId \<rightharpoonup> Reality"
  conflictSets :: "ConflictId \<rightharpoonup> Conflict"
  transferOutputs :: "TransferOutputReference \<rightharpoonup> TransferOutput"
  transferOutputBookings :: "BookingKey set"

datatype error =
    MissingInput          \<comment> \<open>"missing input in transfer"\<close>
  | InputNotInReality     \<comment> \<open>"the referenced funds do not exist in this reality"\<close>
  | UnbalancedTransfer    \<comment> \<open>"the sum of the balance changes is not 0"\<close>
  | ElevationError        \<comment> \<open>"could not find TransferOutput to elevate"\<close>
  | Panic                 \<comment> \<open>a Go panic: a parent that cannot be loaded, a nil object\<close>

subsection \<open>Reality: construction and counters\<close>

definition newReality :: "RealityId \<Rightarrow> RealityId list \<Rightarrow> Reality" where
  "newReality i parentRealities =
     \<lparr>reality_id = i, parentRealityIds = NewRealityIdSet parentRealities,
      conflictIds = [], transferOutputCount = 0\<rparr>"

definition GetTransferOutputCount :: "Reality \<Rightarrow> 32 word" where
  "GetTransferOutputCount r = transferOutputCount r"

text \<open>\<open>atomic.AddUint32(&count, 1)\<close>: the new count and the updated reality.\<close>

definition IncreaseTransferOutputCount :: "Reality \<Rightarrow> 32 word \<times> Reality" where
  "IncreaseTransferOutputCount r =
     (transferOutputCount r + 1, r\<lparr>transferOutputCount := transferOutputCount r + 1\<rparr>)"

text \<open>\<open>atomic.AddUint32(&count, ^uint32(0))\<close>: adding the all-ones word.\<close>

definition DecreaseTransferOutputCount :: "Reality \<Rightarrow> 32 word \<times> Reality" where
  "DecreaseTransferOutputCount r =
     (transferOutputCount r + NOT 0,
      r\<lparr>transferOutputCount := transferOutputCount r + NOT 0\<rparr>)"

definition IsAggregated :: "Reality \<Rightarrow> bool" where
  "IsAggregated r = (length (parentRealityIds r) > 1)"

definition AddConflictSet :: "ConflictId \<Rightarrow> Reality \<Rightarrow> Reality" where
  "AddConflictSet c r = r\<lparr>conflictIds := Add c (conflictIds r)\<rparr>"

text \<open>
  \<open>CreateReality\<close>: a new reality with the receiver as its only parent, put into the
  store of realities.
\<close>

definition CreateReality :: "RealityId \<Rightarrow> RealityId \<Rightarrow> LedgerState \<Rightarrow> LedgerState" where
  "CreateReality self i s =
     s\<lparr>realities := (realities s)(i \<mapsto> newReality i [self])\<rparr>"

subsection \<open>Booking one output\<close>

text \<open>
  \<open>bookTransferOutput\<close>, with the receiver given by its id. The receiver's counter is
  increased on the object the store holds under that id (a receiver that was deleted from
  the store meanwhile is a detached object, and the store does not see its counter). The
  output is the object the caller holds: a new one (first branch, stored there), or the
  stored one (second branch, where \<open>SetRealityId\<close> changes the stored object in place).
  The only error the Go function can return is the storage error of loading the old
  booking, which the model does not have; the result is the output as it is afterwards
  and the new state.
\<close>

definition bookingKey :: "RealityId \<Rightarrow> TransferOutput \<Rightarrow> BookingKey" where
  "bookingKey r x = (r, addressHash x, length (consumers x) \<ge> 1, transferHash x)"

definition outputKey :: "TransferOutput \<Rightarrow> TransferOutputReference" where
  "outputKey x = (transferHash x, addressHash x)"

definition releaseOldReality :: "RealityId \<Rightarrow> LedgerState \<Rightarrow> LedgerState" where
  "releaseOldReality old s =
     (case realities s old of
        None \<Rightarrow> s
      | Some r \<Rightarrow>
          (case DecreaseTransferOutputCount r of
             (c, r') \<Rightarrow>
               if c = 0 then s\<lparr>realities := (realities s)(old := None)\<rparr>
               else s\<lparr>realities := (realities s)(old \<mapsto> r')\<rparr>))"

definition increaseCountOf :: "RealityId \<Rightarrow> LedgerState \<Rightarrow> LedgerState" where
  "increaseCountOf self s =
     (case realities s self of
        None \<Rightarrow> s
      | Some r \<Rightarrow> s\<lparr>realities := (realities s)(self \<mapsto> snd (IncreaseTransferOutputCount r))\<rparr>)"

definition bookTransferOutput ::
  "RealityId \<Rightarrow> TransferOutput \<Rightarrow> LedgerState \<Rightarrow> TransferOutput \<times> LedgerState" where
  "bookTransferOutput self x s =
     (let transferOutputRealityId = realityId x;
          (x1, s1) =
            (if transferOutputRealityId = emptyRealityId then
               (let x' = x\<lparr>realityId := self\<rparr>
                in (x', s\<lparr>transferOutputs := (transferOutputs s)(outputKey x' \<mapsto> x')\<rparr>))
             else if transferOutputRealityId \<noteq> self then
               (let x' = x\<lparr>realityId := self\<rparr>;
                    sa = s\<lparr>transferOutputs := (transferOutputs s)(outputKey x' \<mapsto> x')\<rparr>;
                    sb = releaseOldReality transferOutputRealityId sa
                in (x', sb\<lparr>transferOutputBookings :=
                            transferOutputBookings sb - {bookingKey transferOutputRealityId x}\<rparr>))
             else (x, s))
      in if transferOutputRealityId \<noteq> self then
           (x1, increaseCountOf self
                  (s1\<lparr>transferOutputBookings :=
                        insert (bookingKey self x) (transferOutputBookings s1)\<rparr>))
         else (x1, s1))"

subsection \<open>Ancestry\<close>

text \<open>
  A Go map that the code ranges over is an association list with one entry per key;
  \<open>putEntry\<close> is the assignment \<open>m[k] = v\<close>.
\<close>

fun putEntry :: "'k \<Rightarrow> 'v \<Rightarrow> ('k \<times> 'v) list \<Rightarrow> ('k \<times> 'v) list" where
  "putEntry k v [] = [(k, v)]"
| "putEntry k v ((k', v') # m) =
     (if k' = k then (k, v) # m else (k', v') # putEntry k v m)"

text \<open>
  \<open>GetParentRealities\<close>: every parent id is loaded through the store; a parent that
  cannot be loaded is a panic. The result maps the id of each loaded reality to it.
\<close>

fun loadParentRealities ::
  "LedgerState \<Rightarrow> RealityId list \<Rightarrow> (RealityId \<times> Reality) list
    \<Rightarrow> error + (RealityId \<times> Reality) list" where
  "loadParentRealities s [] parentRealities = Inr parentRealities"
| "loadParentRealities s (parentRealityId # ids) parentRealities =
     (case realities s parentRealityId of
        None \<Rightarrow> Inl Panic
      | Some loadedParentReality \<Rightarrow>
          loadParentRealities s ids
            (putEntry (reality_id loadedParentReality) loadedParentReality parentRealities))"

definition GetParentRealities ::
  "LedgerState \<Rightarrow> Reality \<Rightarrow> error + (RealityId \<times> Reality) list" where
  "GetParentRealities s r = loadParentRealities s (parentRealityIds r) []"

text \<open>
  \<open>GetAncestorRealities\<close> recurses through the parents; on a cyclic parent relation the
  Go recursion never returns. The first argument bounds the depth of the recursion, and
  \<open>None\<close> says that the bound was reached. \<open>collectAncestors\<close> is the loop over the
  parents: each parent and then each of its ancestors is assigned to the result.
\<close>

fun collectAncestors ::
  "(Reality \<Rightarrow> (error + (RealityId \<rightharpoonup> Reality)) option)
    \<Rightarrow> (RealityId \<times> Reality) list \<Rightarrow> (RealityId \<rightharpoonup> Reality)
    \<Rightarrow> (error + (RealityId \<rightharpoonup> Reality)) option" where
  "collectAncestors ancestorsOf [] result = Some (Inr result)"
| "collectAncestors ancestorsOf ((parentRealityId, parentReality) # ps) result =
     (case ancestorsOf parentReality of
        None \<Rightarrow> None
      | Some (Inl e) \<Rightarrow> Some (Inl e)
      | Some (Inr ancestors) \<Rightarrow>
          collectAncestors ancestorsOf ps
            ((result(parentRealityId \<mapsto> parentReality)) ++ ancestors))"

primrec GetAncestorRealities ::
  "nat \<Rightarrow> LedgerState \<Rightarrow> Reality \<Rightarrow> (error + (RealityId \<rightharpoonup> Reality)) option" where
  "GetAncestorRealities 0 s r = None"
| "GetAncestorRealities (Suc n) s r =
     (case GetParentRealities s r of
        Inl e \<Rightarrow> Some (Inl e)
      | Inr parentRealities \<Rightarrow>
          collectAncestors (GetAncestorRealities n s) parentRealities Map.empty)"

definition DescendsFrom ::
  "nat \<Rightarrow> LedgerState \<Rightarrow> Reality \<Rightarrow> RealityId \<Rightarrow> (error + bool) option" where
  "DescendsFrom n s r i =
     (if reality_id r = i then Some (Inr True)
      else
        (case GetAncestorRealities n s r of
           None \<Rightarrow> None
         | Some (Inl e) \<Rightarrow> Some (Inl e)
         | Some (Inr ancestors) \<Rightarrow> Some (Inr (i \<in> dom ancestors))))"

text \<open>
  The words of the spec, to compare with: an id is reachable from a reality when it is
  one of its parents, or is reachable from a parent that the store resolves; the ancestor
  chain of a reality resolves when each parent id loads the reality of that id, whose
  chain resolves in turn (so the chain ends, at realities without parents such as MAIN).
\<close>

inductive reachable :: "LedgerState \<Rightarrow> Reality \<Rightarrow> RealityId \<Rightarrow> bool" where
  parent: "p \<in> set (parentRealityIds r) \<Longrightarrow> reachable s r p"
| ancestor: "p \<in> set (parentRealityIds r) \<Longrightarrow> realities s p = Some r' \<Longrightarrow>
     reachable s r' a \<Longrightarrow> reachable s r a"

inductive resolves :: "LedgerState \<Rightarrow> Reality \<Rightarrow> bool" where
  "(\<And>p. p \<in> set (parentRealityIds r) \<Longrightarrow>
       \<exists>r'. realities s p = Some r' \<and> reality_id r' = p \<and> resolves s r') \<Longrightarrow>
   resolves s r"

subsection \<open>Verification of a transfer\<close>

text \<open>
  \<open>totalColoredBalances\<close> is a Go map from a color to a \<open>uint64\<close>; reading a missing
  key gives 0. Inputs are handles into the store of outputs, given by their keys.
\<close>

definition balanceOf :: "(Color \<rightharpoonup> 64 word) \<Rightarrow> Color \<Rightarrow> 64 word" where
  "balanceOf m c = (case m c of None \<Rightarrow> 0 | Some v \<Rightarrow> v)"

fun addBalances :: "ColoredBalance list \<Rightarrow> (Color \<rightharpoonup> 64 word) \<Rightarrow> (Color \<rightharpoonup> 64 word)" where
  "addBalances [] m = m"
| "addBalances (b # bs) m =
     addBalances bs (m(color b \<mapsto> balanceOf m (color b) + balance b))"

fun subtractBalances :: "ColoredBalance list \<Rightarrow> (Color \<rightharpoonup> 64 word) \<Rightarrow> (Color \<rightharpoonup> 64 word)" where
  "subtractBalances [] m = m"
| "subtractBalances (b # bs) m =
     (let m' = m(color b \<mapsto> balanceOf m (color b) - balance b)
      in subtractBalances bs (if balanceOf m' (color b) = 0 then m'(color b := None) else m'))"

fun subtractOutputs ::
  "(AddressHash \<times> ColoredBalance list) list \<Rightarrow> (Color \<rightharpoonup> 64 word) \<Rightarrow> (Color \<rightharpoonup> 64 word)" where
  "subtractOutputs [] m = m"
| "subtractOutputs ((a, transferOutput) # outputs) m =
     subtractOutputs outputs (subtractBalances transferOutput m)"

fun verifyInputs ::
  "nat \<Rightarrow> LedgerState \<Rightarrow> Reality \<Rightarrow> TransferOutputReference list \<Rightarrow> (Color \<rightharpoonup> 64 word)
    \<Rightarrow> (error + (Color \<rightharpoonup> 64 word)) option" where
  "verifyInputs n s r [] m = Some (Inr m)"
| "verifyInputs n s r (cachedInput # inputs) m =
     (case transferOutputs s cachedInput of
        None \<Rightarrow> Some (Inl MissingInput)
      | Some transferOutput \<Rightarrow>
          (case DescendsFrom n s r (realityId transferOutput) of
             None \<Rightarrow> None
           | Some (Inl e) \<Rightarrow> Some (Inl e)
           | Some (Inr False) \<Rightarrow> Some (Inl InputNotInReality)
           | Some (Inr True) \<Rightarrow>
               verifyInputs n s r inputs (addBalances (balances transferOutput) m)))"

definition verifyTransfer ::
  "nat \<Rightarrow> LedgerState \<Rightarrow> Reality \<Rightarrow> TransferOutputReference list
    \<Rightarrow> (AddressHash \<times> ColoredBalance list) list \<Rightarrow> (error + unit) option" where
  "verifyTransfer n s r inputs outputs =
     (case verifyInputs n s r inputs Map.empty of
        None \<Rightarrow> None
      | Some (Inl e) \<Rightarrow> Some (Inl e)
      | Some (Inr m) \<Rightarrow>
          if dom (subtractOutputs outputs m) \<noteq> {} then Some (Inl UnbalancedTransfer)
          else Some (Inr ()))"

text \<open>
  The words of the spec, to compare with: the exact sum, as a natural number, of the
  balances of one color over all inputs, and over all outputs.
\<close>

definition colorSum :: "Color \<Rightarrow> ColoredBalance list \<Rightarrow> nat" where
  "colorSum c bs = sum_list (map (\<lambda>b. unat (balance b)) (filter (\<lambda>b. color b = c) bs))"

definition inputBalances :: "LedgerState \<Rightarrow> TransferOutputReference list \<Rightarrow> ColoredBalance list" where
  "inputBalances s inputs =
     concat (map (\<lambda>i. case transferOutputs s i of None \<Rightarrow> [] | Some x \<Rightarrow> balances x) inputs)"

definition outputBalances :: "(AddressHash \<times> ColoredBalance list) list \<Rightarrow> ColoredBalance list" where
  "outputBalances outputs = concat (map snd outputs)"

definition inputSum :: "LedgerState \<Rightarrow> TransferOutputReference list \<Rightarrow> Color \<Rightarrow> nat" where
  "inputSum s inputs c = colorSum c (inputBalances s inputs)"

definition outputSum :: "(AddressHash \<times> ColoredBalance list) list \<Rightarrow> Color \<Rightarrow> nat" where
  "outputSum outputs c = colorSum c (outputBalances outputs)"

subsection \<open>Collaborators declared outside \<open>reality.go\<close>\<close>

text \<open>
  Modelled from the spec: the constructors of outputs and conflict sets and
  \<open>Conflict.AddReality\<close> are declared outside \<open>reality.go\<close>. A new output has no
  consumers; a new conflict set has no realities; \<open>AddReality\<close> is idempotent.
\<close>

definition NewTransferOutput ::
  "RealityId \<Rightarrow> TransferHash \<Rightarrow> AddressHash \<Rightarrow> ColoredBalance list \<Rightarrow> TransferOutput" where
  "NewTransferOutput r t a bs =
     \<lparr>realityId = r, transferHash = t, addressHash = a, balances = bs, consumers = []\<rparr>"

definition newConflictSet :: "ConflictId \<Rightarrow> Conflict" where
  "newConflictSet c = \<lparr>conflict_id = c, conflict_realities = []\<rparr>"

definition AddReality :: "RealityId \<Rightarrow> Conflict \<Rightarrow> Conflict" where
  "AddReality r c = c\<lparr>conflict_realities := Add r (conflict_realities c)\<rparr>"

text \<open>
  Modelled from the spec: \<open>TransferOutput.addConsumer\<close> is declared outside
  \<open>reality.go\<close>. Section 4.B: it appends the consuming transfer to the consumers map
  and returns null if this is the first consumer, otherwise the previously recorded
  consumers. The entry of a consumer lists the addresses of the consumer's outputs (the
  references elevation follows). The functions below take this method as the parameter
  \<open>ac\<close>, so what is proved of them holds for every implementation of it.
\<close>

type_synonym Consumers = "(TransferHash \<times> AddressHash list) list"
type_synonym Outputs = "(AddressHash \<times> ColoredBalance list) list"
type_synonym AddConsumer =
  "TransferHash \<Rightarrow> Outputs \<Rightarrow> TransferOutput \<Rightarrow> Consumers option \<times> TransferOutput"

definition addConsumer :: AddConsumer where
  "addConsumer consumer outputs x =
     (if consumers x = [] then None else Some (consumers x),
      x\<lparr>consumers := putEntry consumer (map fst outputs) (consumers x)\<rparr>)"

text \<open>
  Modelled from the spec: \<open>LedgerState.AggregateRealities\<close> is declared outside
  \<open>reality.go\<close>. Section 4.F: one parent id short-circuits to that parent; otherwise
  the id is a hash of the sorted parent ids, the existing reality of that id is returned
  if present, and otherwise a reality with those parents and no conflict ids is created.
  The hash is the parameter \<open>h\<close>. The result is a handle: \<open>None\<close> when the one
  parent is not in the store. The functions below take the whole method as the
  parameter \<open>agg\<close>.
\<close>

type_synonym Aggregate = "LedgerState \<Rightarrow> RealityId list \<Rightarrow> Reality option"

definition AggregateRealities :: "(RealityId list \<Rightarrow> RealityId) \<Rightarrow> Aggregate" where
  "AggregateRealities h s ids =
     (case ids of
        [p] \<Rightarrow> realities s p
      | _ \<Rightarrow>
          (case realities s (h (sort ids)) of
             Some r \<Rightarrow> Some r
           | None \<Rightarrow> Some (newReality (h (sort ids)) ids)))"

subsection \<open>Elevation\<close>

text \<open>
  A change of an object reached through a handle: it is seen in the store when the
  object is the one stored under its key (\<open>newReality\<close> makes the storage key a copy
  of the id), and not at all when the key has been deleted.
\<close>

definition onReality :: "RealityId \<Rightarrow> (Reality \<Rightarrow> Reality) \<Rightarrow> LedgerState \<Rightarrow> LedgerState" where
  "onReality i f s =
     (case realities s i of
        None \<Rightarrow> s
      | Some r \<Rightarrow> s\<lparr>realities := (realities s)(i \<mapsto> f r)\<rparr>)"

definition onConflict :: "ConflictId \<Rightarrow> (Conflict \<Rightarrow> Conflict) \<Rightarrow> LedgerState \<Rightarrow> LedgerState" where
  "onConflict i f s =
     (case conflictSets s i of
        None \<Rightarrow> s
      | Some c \<Rightarrow> s\<lparr>conflictSets := (conflictSets s)(i \<mapsto> f c)\<rparr>)"

text \<open>
  The references \<open>(transferHash, addressHash)\<close> of the consumers of an output, in the
  order of the two nested loops of \<open>elevateTransferOutputOfCurrentReality\<close>.
\<close>

definition consumerReferences :: "Consumers \<Rightarrow> TransferOutputReference list" where
  "consumerReferences cs =
     concat (map (\<lambda>(t, addresses). map (NewTransferOutputReference t) addresses) cs)"

text \<open>A loop of elevations that returns at the first error.\<close>

fun elevateEach ::
  "(TransferOutputReference \<Rightarrow> LedgerState \<Rightarrow> (error option \<times> LedgerState) option)
    \<Rightarrow> TransferOutputReference list \<Rightarrow> LedgerState
    \<Rightarrow> (error option \<times> LedgerState) option" where
  "elevateEach f [] s = Some (None, s)"
| "elevateEach f (x # xs) s =
     (case f x s of
        None \<Rightarrow> None
      | Some (Some e, s') \<Rightarrow> Some (Some e, s')
      | Some (None, s') \<Rightarrow> elevateEach f xs s')"

text \<open>
  The three elevation functions call each other along the consumers of the outputs; on
  a cyclic consumer relation the Go recursion never returns. The first argument bounds
  the depth of the recursion (\<open>None\<close>: the bound was reached). Receivers and the new
  reality are given by their ids; the nested reality is the object just loaded.
\<close>

function (sequential)
  elevateTransferOutput ::
    "nat \<Rightarrow> Aggregate \<Rightarrow> RealityId \<Rightarrow> TransferOutputReference \<Rightarrow> RealityId \<Rightarrow> LedgerState
      \<Rightarrow> (error option \<times> LedgerState) option"
  and elevateTransferOutputOfCurrentReality ::
    "nat \<Rightarrow> Aggregate \<Rightarrow> RealityId \<Rightarrow> TransferOutput \<Rightarrow> RealityId \<Rightarrow> LedgerState
      \<Rightarrow> (error option \<times> LedgerState) option"
  and elevateTransferOutputOfNestedReality ::
    "nat \<Rightarrow> Aggregate \<Rightarrow> Reality \<Rightarrow> TransferOutput \<Rightarrow> RealityId \<Rightarrow> RealityId \<Rightarrow> LedgerState
      \<Rightarrow> (error option \<times> LedgerState) option"
where
  "elevateTransferOutput 0 agg self transferOutputReference newRealityId s = None"
| "elevateTransferOutput (Suc n) agg self transferOutputReference newRealityId s =
     (case transferOutputs s transferOutputReference of
        None \<Rightarrow> Some (Some ElevationError, s)
      | Some transferOutputToElevate \<Rightarrow>
          if realityId transferOutputToElevate = self then
            elevateTransferOutputOfCurrentReality n agg self transferOutputToElevate newRealityId s
          else
            (case realities s (realityId transferOutputToElevate) of
               None \<Rightarrow> Some (None, s)
             | Some nestedReality \<Rightarrow>
                 elevateTransferOutputOfNestedReality n agg nestedReality
                   transferOutputToElevate self newRealityId s))"
| "elevateTransferOutputOfCurrentReality n agg self transferOutput newRealityId s =
     (case bookTransferOutput newRealityId transferOutput s of
        (transferOutput', s1) \<Rightarrow>
          elevateEach (\<lambda>r s'. elevateTransferOutput n agg self r newRealityId s')
            (consumerReferences (consumers transferOutput')) s1)"
| "elevateTransferOutputOfNestedReality n agg nested transferOutput oldParentRealityId
       newParentRealityId s =
     (if \<not> IsAggregated nested then
        Some (None,
          s\<lparr>realities := (realities s)(reality_id nested \<mapsto>
               nested\<lparr>parentRealityIds :=
                 Add newParentRealityId (Remove oldParentRealityId (parentRealityIds nested))\<rparr>)\<rparr>)
      else
        (case agg s (Add newParentRealityId
                      (Remove oldParentRealityId (parentRealityIds nested))) of
           None \<Rightarrow> Some (None, s)
         | Some aggregated \<Rightarrow>
             elevateTransferOutputOfCurrentReality n agg (reality_id nested) transferOutput
               (reality_id aggregated)
               (s\<lparr>realities := (realities s)(reality_id aggregated \<mapsto> aggregated)\<rparr>)))"
  by pat_completeness auto
termination
  by (relation "measure (\<lambda>x. case x of
        Inl (n, _) \<Rightarrow> 3 * n
      | Inr (Inl (n, _)) \<Rightarrow> 3 * n + 1
      | Inr (Inr (n, _)) \<Rightarrow> 3 * n + 2)") auto

subsection \<open>Consuming the inputs\<close>

text \<open>
  \<open>createRealityForConflictingConsumers\<close>. The error is the named result \<open>err\<close>: each
  call of \<open>elevateTransferOutput\<close> assigns it, an error ends the loop over the addresses
  of that consumer only (the \<open>return\<close> leaves the closure), and the loop over the
  consumers goes on.
\<close>

fun createRealityForConflictingConsumers ::
  "nat \<Rightarrow> Aggregate \<Rightarrow> RealityId \<Rightarrow> Consumers \<Rightarrow> ConflictId \<Rightarrow> error option \<Rightarrow> LedgerState
    \<Rightarrow> (error option \<times> LedgerState) option" where
  "createRealityForConflictingConsumers n agg self [] conflictSet err s = Some (err, s)"
| "createRealityForConflictingConsumers n agg self ((hash, addressHashes) # cs)
       conflictSet err s =
     (let elevatedRealityId = ToRealityId hash;
          s1 = CreateReality self elevatedRealityId s;
          s2 = onConflict conflictSet (AddReality elevatedRealityId) s1;
          s3 = onReality elevatedRealityId (AddConflictSet conflictSet) s2
      in case elevateEach (\<lambda>r s'. elevateTransferOutput n agg self r elevatedRealityId s')
                (map (NewTransferOutputReference hash) addressHashes) s3 of
           None \<Rightarrow> None
         | Some (err', s4) \<Rightarrow>
             createRealityForConflictingConsumers n agg self cs conflictSet
               (if addressHashes = [] then err else err') s4)"

text \<open>
  \<open>retrieveConflictSetForConflictingInput\<close>: with consumers to elevate a new conflict
  set is stored and they are elevated; with none the conflict set is loaded, and the
  type assertion on a conflict set that does not exist is a panic.
\<close>

definition retrieveConflictSetForConflictingInput ::
  "nat \<Rightarrow> Aggregate \<Rightarrow> RealityId \<Rightarrow> TransferOutput \<Rightarrow> Consumers \<Rightarrow> LedgerState
    \<Rightarrow> ((error + ConflictId) \<times> LedgerState) option" where
  "retrieveConflictSetForConflictingInput n agg self input consumersToElevate s =
     (let conflictSetId = NewConflictSetId (transferHash input) (addressHash input)
      in if length consumersToElevate \<ge> 1 then
           (case createRealityForConflictingConsumers n agg self consumersToElevate conflictSetId
                   None
                   (s\<lparr>conflictSets :=
                        (conflictSets s)(conflictSetId \<mapsto> newConflictSet conflictSetId)\<rparr>) of
              None \<Rightarrow> None
            | Some (Some e, s') \<Rightarrow> Some (Inl e, s')
            | Some (None, s') \<Rightarrow> Some (Inr conflictSetId, s'))
         else
           (case conflictSets s conflictSetId of
              None \<Rightarrow> Some (Inl Panic, s)
            | Some c \<Rightarrow> Some (Inr conflictSetId, s)))"

text \<open>
  \<open>consumeInputs\<close>: the consumed output is changed in place by \<open>addConsumer\<close>, so
  the store sees it also when an error ends the loop before \<open>input.Store()\<close>.
\<close>

fun consumeInputs ::
  "nat \<Rightarrow> AddConsumer \<Rightarrow> Aggregate \<Rightarrow> RealityId \<Rightarrow> TransferOutputReference list
    \<Rightarrow> TransferHash \<Rightarrow> Outputs \<Rightarrow> ConflictId list \<Rightarrow> LedgerState
    \<Rightarrow> ((error + ConflictId list) \<times> LedgerState) option" where
  "consumeInputs n ac agg self [] hash outputs sets s =
     Some (Inr sets, s)"
| "consumeInputs n ac agg self (input # inputs) hash outputs sets s =
     (case transferOutputs s input of
        None \<Rightarrow> Some (Inl Panic, s)
      | Some consumedTransferOutput \<Rightarrow>
          (case ac hash outputs consumedTransferOutput of
             (consumersToElevate, consumed') \<Rightarrow>
               (let s1 = s\<lparr>transferOutputs := (transferOutputs s)(input \<mapsto> consumed')\<rparr>
                in case consumersToElevate of
                     None \<Rightarrow>
                       consumeInputs n ac agg self inputs hash outputs sets s1
                   | Some toElevate \<Rightarrow>
                       (case retrieveConflictSetForConflictingInput n agg self consumed'
                               toElevate s1 of
                          None \<Rightarrow> None
                        | Some (Inl e, s2) \<Rightarrow> Some (Inl e, s2)
                        | Some (Inr conflictSet, s2) \<Rightarrow>
                            consumeInputs n ac agg self inputs hash outputs
                              (sets @ [conflictSet]) s2))))"

subsection \<open>Booking a transfer\<close>

text \<open>
  \<open>bookTransfer\<close>. \<open>registerConflictSets\<close> is its loop over the conflict sets that
  \<open>consumeInputs\<close> returned (a handle without an object is a nil dereference, a
  panic); \<open>bookOutputs\<close> is its loop over the outputs, which are a Go map from an
  address to balances, ranged over here in the order of the list. The same bound serves
  the ancestry of verification and the elevations.
\<close>

fun registerConflictSets ::
  "RealityId \<Rightarrow> ConflictId list \<Rightarrow> LedgerState \<Rightarrow> error option \<times> LedgerState" where
  "registerConflictSets targetRealityId [] s = (None, s)"
| "registerConflictSets targetRealityId (cachedConflictSet # cs) s =
     (case conflictSets s cachedConflictSet of
        None \<Rightarrow> (Some Panic, s)
      | Some conflictSet \<Rightarrow>
          registerConflictSets targetRealityId cs
            (onReality targetRealityId (AddConflictSet (conflict_id conflictSet))
               (s\<lparr>conflictSets :=
                    (conflictSets s)(cachedConflictSet \<mapsto> AddReality targetRealityId conflictSet)\<rparr>)))"

fun bookOutputs :: "RealityId \<Rightarrow> TransferHash \<Rightarrow> Outputs \<Rightarrow> LedgerState \<Rightarrow> LedgerState" where
  "bookOutputs self hash [] s = s"
| "bookOutputs self hash ((address, coloredBalances) # outputs) s =
     bookOutputs self hash outputs
       (snd (bookTransferOutput self
               (NewTransferOutput emptyRealityId hash address coloredBalances) s))"

definition bookTransfer ::
  "nat \<Rightarrow> AddConsumer \<Rightarrow> Aggregate \<Rightarrow> Reality \<Rightarrow> TransferHash \<Rightarrow> TransferOutputReference list
    \<Rightarrow> Outputs \<Rightarrow> LedgerState \<Rightarrow> (error option \<times> LedgerState) option" where
  "bookTransfer n ac agg r hash inputs outputs s =
     (case verifyTransfer n s r inputs outputs of
        None \<Rightarrow> None
      | Some (Inl e) \<Rightarrow> Some (Some e, s)
      | Some (Inr u) \<Rightarrow>
          (case consumeInputs n ac agg (reality_id r) inputs hash outputs [] s of
             None \<Rightarrow> None
           | Some (Inl e, s1) \<Rightarrow> Some (Some e, s1)
           | Some (Inr sets, s1) \<Rightarrow>
               if length sets \<ge> 1 then
                 (let targetRealityId = ToRealityId hash;
                      s2 = CreateReality (reality_id r) targetRealityId s1
                  in case registerConflictSets targetRealityId sets s2 of
                       (Some e, s3) \<Rightarrow> Some (Some e, s3)
                     | (None, s3) \<Rightarrow>
                         Some (None, bookOutputs targetRealityId hash outputs s3))
               else Some (None, bookOutputs (reality_id r) hash outputs s1)))"

section \<open>Example ledgers\<close>

text \<open>
  A genesis output of 100 units in MAIN, which holds that one output, and an empty
  child reality 7 of MAIN.
\<close>

definition ex_genesis :: TransferOutput where
  "ex_genesis =
     \<lparr>realityId = MAIN_REALITY_ID, transferHash = 10, addressHash = 20,
      balances = [\<lparr>color = 0, balance = 100\<rparr>], consumers = []\<rparr>"

definition ex_ledger :: LedgerState where
  "ex_ledger =
     \<lparr>realities =
        [MAIN_REALITY_ID \<mapsto> (newReality MAIN_REALITY_ID [])\<lparr>transferOutputCount := 1\<rparr>,
         7 \<mapsto> newReality 7 [MAIN_REALITY_ID]],
      conflictSets = Map.empty,
      transferOutputs = [(10, 20) \<mapsto> ex_genesis],
      transferOutputBookings = {(MAIN_REALITY_ID, 20, False, 10)}\<rparr>"

definition ex_main :: Reality where
  "ex_main = (newReality MAIN_REALITY_ID [])\<lparr>transferOutputCount := 1\<rparr>"

definition ex_child :: Reality where
  "ex_child = newReality 7 [MAIN_REALITY_ID]"

text \<open>The child reality 7 holds an output of its own, which MAIN does not reach.\<close>

definition ex_side :: TransferOutput where
  "ex_side =
     \<lparr>realityId = 7, transferHash = 12, addressHash = 20,
      balances = [\<lparr>color = 0, balance = 5\<rparr>], consumers = []\<rparr>"

definition ex_ledger_side :: LedgerState where
  "ex_ledger_side =
     ex_ledger\<lparr>realities := (realities ex_ledger)(7 \<mapsto> ex_child\<lparr>transferOutputCount := 1\<rparr>),
               transferOutputs := (transferOutputs ex_ledger)((12, 20) \<mapsto> ex_side),
               transferOutputBookings := insert (7, 20, False, 12) (transferOutputBookings ex_ledger)\<rparr>"

text \<open>Two genesis outputs of \<open>2^63\<close> units each, both in MAIN.\<close>

definition ex_ledger_big :: LedgerState where
  "ex_ledger_big =
     \<lparr>realities = [MAIN_REALITY_ID \<mapsto> (newReality MAIN_REALITY_ID [])\<lparr>transferOutputCount := 2\<rparr>],
      conflictSets = Map.empty,
      transferOutputs =
        [(10, 20) \<mapsto> ex_genesis\<lparr>balances := [\<lparr>color = 0, balance = 9223372036854775808\<rparr>]\<rparr>,
         (11, 20) \<mapsto> ex_genesis\<lparr>transferHash := 11,
                        balances := [\<lparr>color = 0, balance = 9223372036854775808\<rparr>]\<rparr>],
      transferOutputBookings = {(MAIN_REALITY_ID, 20, False, 10), (MAIN_REALITY_ID, 20, False, 11)}\<rparr>"

text \<open>A hash for the ids of aggregated realities.\<close>

definition ex_hash :: "RealityId list \<Rightarrow> RealityId" where
  "ex_hash ids = 1000 + sum_list ids"






section \<open>Booking one output: counters and deletion\<close>

lemmas ex_defs = ex_genesis_def ex_ledger_def newReality_def NewRealityIdSet_def
  MAIN_REALITY_ID_def emptyRealityId_def

lemmas book_defs = bookTransferOutput_def releaseOldReality_def increaseCountOf_def
  DecreaseTransferOutputCount_def IncreaseTransferOutputCount_def outputKey_def
  bookingKey_def

lemma Decrease_fst:
  "fst (DecreaseTransferOutputCount r) = transferOutputCount r - 1"
  by (simp add: DecreaseTransferOutputCount_def)

lemma Decrease_snd:
  "snd (DecreaseTransferOutputCount r) =
     r\<lparr>transferOutputCount := transferOutputCount r - 1\<rparr>"
  by (simp add: DecreaseTransferOutputCount_def)

lemma realities_book_old:
  assumes "realityId x \<noteq> emptyRealityId" "realityId x \<noteq> self"
    and "realities s (realityId x) = Some old"
  shows "realities (snd (bookTransferOutput self x s)) (realityId x) =
     (if transferOutputCount old = 1 then None
      else Some (old\<lparr>transferOutputCount := transferOutputCount old - 1\<rparr>))"
  using assms by (simp add: book_defs Let_def split: option.splits)

text \<open>
  Claim C10. The transfer-output count is a 32-bit counter that wraps: on a reality whose
  count is 0, \<open>DecreaseTransferOutputCount\<close> returns \<open>2^32 - 1\<close>, never 0, and leaves
  that value in the reality. So when \<open>bookTransferOutput\<close> moves an output out of a
  reality whose count is already 0, the reality is not deleted: it stays in the store
  with the count \<open>2^32 - 1\<close>.
\<close>

theorem DecreaseTransferOutputCount_wraps_at_zero:
  assumes "transferOutputCount r = 0"
  shows "fst (DecreaseTransferOutputCount r) = 4294967295
       \<and> unat (fst (DecreaseTransferOutputCount r)) = 2 ^ 32 - 1
       \<and> fst (DecreaseTransferOutputCount r) \<noteq> 0
       \<and> transferOutputCount (snd (DecreaseTransferOutputCount r)) = 4294967295
       \<and> (\<forall>s self x.
            realityId x \<noteq> emptyRealityId \<and> realityId x \<noteq> self
            \<and> realities s (realityId x) = Some r \<longrightarrow>
            realities (snd (bookTransferOutput self x s)) (realityId x) =
              Some (r\<lparr>transferOutputCount := 4294967295\<rparr>))"
  using assms
  by (simp add: Decrease_fst Decrease_snd realities_book_old
      unsigned_minus_1_eq_mask mask_eq_exp_minus_1)

theorem DecreaseTransferOutputCount_wraps_at_zero_witness:
  "transferOutputCount (newReality 7 [MAIN_REALITY_ID]) = 0
   \<and> fst (DecreaseTransferOutputCount (newReality 7 [MAIN_REALITY_ID])) = 4294967295
   \<and> realities (snd (bookTransferOutput MAIN_REALITY_ID (ex_genesis\<lparr>realityId := 7\<rparr>) ex_ledger)) 7
       = Some ((newReality 7 [MAIN_REALITY_ID])\<lparr>transferOutputCount := 4294967295\<rparr>)"
proof -
  have z: "transferOutputCount (newReality 7 [MAIN_REALITY_ID]) = 0"
    by (simp add: newReality_def)
  have pre: "realityId (ex_genesis\<lparr>realityId := 7\<rparr>) \<noteq> emptyRealityId
     \<and> realityId (ex_genesis\<lparr>realityId := 7\<rparr>) \<noteq> MAIN_REALITY_ID
     \<and> realities ex_ledger (realityId (ex_genesis\<lparr>realityId := 7\<rparr>))
         = Some (newReality 7 [MAIN_REALITY_ID])"
    by (simp add: ex_defs)
  note th = DecreaseTransferOutputCount_wraps_at_zero [OF z]
  have a: "fst (DecreaseTransferOutputCount (newReality 7 [MAIN_REALITY_ID])) = 4294967295"
    using th by (rule conjunct1)
  have b: "realityId x \<noteq> emptyRealityId \<and> realityId x \<noteq> self
            \<and> realities s (realityId x) = Some (newReality 7 [MAIN_REALITY_ID]) \<longrightarrow>
            realities (snd (bookTransferOutput self x s)) (realityId x) =
              Some ((newReality 7 [MAIN_REALITY_ID])\<lparr>transferOutputCount := 4294967295\<rparr>)"
    for s self x
    using th by blast
  from b [of "ex_genesis\<lparr>realityId := 7\<rparr>" MAIN_REALITY_ID ex_ledger] pre
  have "realities (snd (bookTransferOutput MAIN_REALITY_ID (ex_genesis\<lparr>realityId := 7\<rparr>) ex_ledger))
          (realityId (ex_genesis\<lparr>realityId := 7\<rparr>))
       = Some ((newReality 7 [MAIN_REALITY_ID])\<lparr>transferOutputCount := 4294967295\<rparr>)"
    by (rule mp)
  then show ?thesis using z a by simp
qed

text \<open>
  Claim C9. Booking an output into the reality that already owns it is a no-op: the
  output's reality id, the realities (so the receiver's count) and the bookings index are
  unchanged. The whole ledger is unchanged whenever the receiver's id is not the empty
  sentinel, or the output is the object the store holds.
\<close>

theorem bookTransferOutput_same_reality_noop:
  assumes "realityId x = self"
  shows "realityId (fst (bookTransferOutput self x s)) = realityId x
       \<and> realities (snd (bookTransferOutput self x s)) = realities s
       \<and> transferOutputBookings (snd (bookTransferOutput self x s)) = transferOutputBookings s
       \<and> conflictSets (snd (bookTransferOutput self x s)) = conflictSets s
       \<and> (self \<noteq> emptyRealityId \<or> transferOutputs s (outputKey x) = Some x \<longrightarrow>
            bookTransferOutput self x s = (x, s))"
  using assms by (auto simp add: book_defs Let_def fun_upd_idem)

theorem bookTransferOutput_same_reality_noop_witness:
  "realityId ex_genesis = MAIN_REALITY_ID
   \<and> bookTransferOutput MAIN_REALITY_ID ex_genesis ex_ledger = (ex_genesis, ex_ledger)
   \<and> realities (snd (bookTransferOutput MAIN_REALITY_ID ex_genesis ex_ledger))
       = realities ex_ledger"
  using bookTransferOutput_same_reality_noop [of ex_genesis MAIN_REALITY_ID ex_ledger]
  by (simp add: ex_defs)

text \<open>
  Claim C4, as stated: when \<open>bookTransferOutput\<close> moves an output out of a reality whose
  count thereby drops to zero, the old reality is deleted only if it is not MAIN. The
  code has no such exemption. Here MAIN holds one output, the genesis output; booking it
  into reality 7 removes MAIN from the store.
\<close>

theorem bookTransferOutput_deletes_MAIN:
  "realityId ex_genesis = MAIN_REALITY_ID
   \<and> realityId ex_genesis \<noteq> 7
   \<and> map_option transferOutputCount (realities ex_ledger MAIN_REALITY_ID) = Some 1
   \<and> realities (snd (bookTransferOutput 7 ex_genesis ex_ledger)) MAIN_REALITY_ID = None"
  by (simp add: ex_defs book_defs Let_def)

text \<open>
  Claim C4, amended: when \<open>bookTransferOutput\<close> moves an output out of a stored reality,
  that reality is deleted from the store exactly when its count thereby drops to zero,
  whatever its id, MAIN included; otherwise it stays with its count decreased by one.
\<close>

theorem bookTransferOutput_deletes_emptied_reality:
  assumes "realityId x \<noteq> emptyRealityId" and "realityId x \<noteq> self"
    and "realities s (realityId x) = Some old"
  shows "(transferOutputCount old = 1 \<longrightarrow>
            realities (snd (bookTransferOutput self x s)) (realityId x) = None)
       \<and> (transferOutputCount old \<noteq> 1 \<longrightarrow>
            realities (snd (bookTransferOutput self x s)) (realityId x) =
              Some (old\<lparr>transferOutputCount := transferOutputCount old - 1\<rparr>))"
  using realities_book_old [OF assms] by simp

theorem bookTransferOutput_deletes_emptied_reality_witness:
  "realityId ex_genesis \<noteq> emptyRealityId \<and> realityId ex_genesis \<noteq> 7
   \<and> realities ex_ledger (realityId ex_genesis)
       = Some ((newReality MAIN_REALITY_ID [])\<lparr>transferOutputCount := 1\<rparr>)
   \<and> realities (snd (bookTransferOutput 7 ex_genesis ex_ledger)) (realityId ex_genesis) = None"
proof -
  have pre: "realityId ex_genesis \<noteq> emptyRealityId" "realityId ex_genesis \<noteq> 7"
    "realities ex_ledger (realityId ex_genesis)
       = Some ((newReality MAIN_REALITY_ID [])\<lparr>transferOutputCount := 1\<rparr>)"
    by (simp_all add: ex_defs)
  from bookTransferOutput_deletes_emptied_reality [OF pre] pre show ?thesis
    by simp
qed

section \<open>Ancestry\<close>

lemmas ex_defs2 = ex_defs ex_main_def ex_child_def ex_side_def ex_ledger_side_def ex_ledger_big_def

lemmas verify_defs = verifyTransfer_def DescendsFrom_def GetParentRealities_def balanceOf_def
  inputSum_def outputSum_def colorSum_def inputBalances_def outputBalances_def

lemma set_putEntry: "set (putEntry k v m) \<subseteq> insert (k, v) (set m)"
  by (induction m) (auto split: if_splits)

lemma keys_putEntry: "fst ` set (putEntry k v m) = insert k (fst ` set m)"
  by (induction k v m rule: putEntry.induct) (simp_all add: insert_commute)

lemma loadParentRealities_resolved:
  assumes "\<forall>p\<in>set ps. \<exists>r'. realities s p = Some r' \<and> reality_id r' = p"
  shows "\<exists>al. loadParentRealities s ps acc = Inr al
           \<and> fst ` set al = fst ` set acc \<union> set ps
           \<and> set al \<subseteq> set acc \<union> {(p, r'). p \<in> set ps \<and> realities s p = Some r'}"
  using assms
proof (induction ps arbitrary: acc)
  case Nil
  then show ?case by simp
next
  case (Cons p ps)
  obtain r' where r': "realities s p = Some r'" "reality_id r' = p"
    using Cons.prems by auto
  have "\<forall>p\<in>set ps. \<exists>r'. realities s p = Some r' \<and> reality_id r' = p"
    using Cons.prems by simp
  from Cons.IH [OF this, of "putEntry p r' acc"]
  obtain al where al: "loadParentRealities s ps (putEntry p r' acc) = Inr al"
    "fst ` set al = fst ` set (putEntry p r' acc) \<union> set ps"
    "set al \<subseteq> set (putEntry p r' acc) \<union> {(p, r'). p \<in> set ps \<and> realities s p = Some r'}"
    by blast
  have "loadParentRealities s (p # ps) acc = Inr al"
    using al(1) r' by simp
  moreover have "fst ` set al = fst ` set acc \<union> set (p # ps)"
    using al(2) by (simp add: keys_putEntry)
  moreover have "set al \<subseteq> set acc \<union> {(q, r'). q \<in> set (p # ps) \<and> realities s q = Some r'}"
    using al(3) set_putEntry [of p r' acc] r'(1) by auto
  ultimately show ?case by blast
qed

lemma collectAncestors_mono:
  assumes "\<And>p v. f p = Some v \<Longrightarrow> g p = Some v"
    and "collectAncestors f ps acc = Some v"
  shows "collectAncestors g ps acc = Some v"
  using assms(2)
proof (induction ps arbitrary: acc)
  case Nil
  then show ?case by simp
next
  case (Cons a ps)
  obtain pid par where a: "a = (pid, par)" by (cases a)
  show ?case
  proof (cases "f par")
    case None
    then show ?thesis using Cons.prems a by simp
  next
    case (Some w)
    then have g: "g par = Some w" by (rule assms(1))
    show ?thesis
      using Cons.prems Cons.IH Some g a by (cases w) auto
  qed
qed

lemma GetAncestorRealities_Suc:
  "GetAncestorRealities n s r = Some v \<Longrightarrow> GetAncestorRealities (Suc n) s r = Some v"
proof (induction n arbitrary: r v)
  case 0
  then show ?case by simp
next
  case (Suc n)
  show ?case
  proof (cases "GetParentRealities s r")
    case (Inl e)
    then show ?thesis using Suc.prems by simp
  next
    case (Inr ps)
    then have "collectAncestors (GetAncestorRealities n s) ps Map.empty = Some v"
      using Suc.prems by simp
    then have "collectAncestors (GetAncestorRealities (Suc n) s) ps Map.empty = Some v"
      by (rule collectAncestors_mono [rotated]) (rule Suc.IH)
    then show ?thesis using Inr by simp
  qed
qed

lemma GetAncestorRealities_mono:
  "GetAncestorRealities n s r = Some v \<Longrightarrow> n \<le> m \<Longrightarrow> GetAncestorRealities m s r = Some v"
  by (induction m) (auto simp: le_Suc_eq dest: GetAncestorRealities_Suc simp del: GetAncestorRealities.simps)

lemma collectAncestors_dom:
  assumes "\<forall>(pid, par)\<in>set ps. \<exists>anc. f par = Some (Inr anc) \<and> dom anc = D par"
  shows "\<exists>res. collectAncestors f ps acc = Some (Inr res)
           \<and> dom res = dom acc \<union> (\<Union>(pid, par)\<in>set ps. insert pid (D par))"
  using assms
proof (induction ps arbitrary: acc)
  case Nil
  then show ?case by simp
next
  case (Cons a ps)
  obtain pid par where a: "a = (pid, par)" by (cases a)
  obtain anc where anc: "f par = Some (Inr anc)" "dom anc = D par"
    using Cons.prems a by auto
  have "\<forall>(pid, par)\<in>set ps. \<exists>anc. f par = Some (Inr anc) \<and> dom anc = D par"
    using Cons.prems by simp
  from Cons.IH [OF this, of "(acc(pid \<mapsto> par)) ++ anc"]
  obtain res where res: "collectAncestors f ps ((acc(pid \<mapsto> par)) ++ anc) = Some (Inr res)"
    "dom res = dom ((acc(pid \<mapsto> par)) ++ anc) \<union> (\<Union>(pid, par)\<in>set ps. insert pid (D par))"
    by blast
  have "collectAncestors f (a # ps) acc = Some (Inr res)"
    using res(1) anc(1) a by simp
  moreover have "dom res = dom acc \<union> (\<Union>(pid, par)\<in>set (a # ps). insert pid (D par))"
    using res(2) anc(2) a by auto
  ultimately show ?case by blast
qed

lemma reachable_iff:
  "reachable s r a \<longleftrightarrow>
     (\<exists>p\<in>set (parentRealityIds r). a = p \<or> (\<exists>r'. realities s p = Some r' \<and> reachable s r' a))"
  by (auto elim: reachable.cases intro: reachable.intros)

lemma uniform_fuel:
  assumes "\<forall>p\<in>set ps. \<exists>r'. realities s p = Some r' \<and> reality_id r' = p
             \<and> (\<exists>n anc. GetAncestorRealities n s r' = Some (Inr anc) \<and> dom anc = {a. reachable s r' a})"
  shows "\<exists>N. \<forall>p\<in>set ps. \<exists>r'. realities s p = Some r' \<and> reality_id r' = p
             \<and> (\<exists>anc. GetAncestorRealities N s r' = Some (Inr anc) \<and> dom anc = {a. reachable s r' a})"
  using assms
proof (induction ps)
  case Nil
  then show ?case by simp
next
  case (Cons p ps)
  from Cons.prems obtain r' n anc where p: "realities s p = Some r'" "reality_id r' = p"
    "GetAncestorRealities n s r' = Some (Inr anc)" "dom anc = {a. reachable s r' a}"
    by auto
  from Cons obtain N where N: "\<forall>p\<in>set ps. \<exists>r'. realities s p = Some r' \<and> reality_id r' = p
             \<and> (\<exists>anc. GetAncestorRealities N s r' = Some (Inr anc) \<and> dom anc = {a. reachable s r' a})"
    by auto
  have "\<forall>q\<in>set (p # ps). \<exists>r'. realities s q = Some r' \<and> reality_id r' = q
             \<and> (\<exists>anc. GetAncestorRealities (max n N) s r' = Some (Inr anc) \<and> dom anc = {a. reachable s r' a})"
  proof
    fix q assume "q \<in> set (p # ps)"
    then consider "q = p" | "q \<in> set ps" by auto
    then show "\<exists>r'. realities s q = Some r' \<and> reality_id r' = q
             \<and> (\<exists>anc. GetAncestorRealities (max n N) s r' = Some (Inr anc) \<and> dom anc = {a. reachable s r' a})"
    proof cases
      case 1
      have "GetAncestorRealities (max n N) s r' = Some (Inr anc)"
        using p(3) by (rule GetAncestorRealities_mono) simp
      then show ?thesis using 1 p by blast
    next
      case 2
      with N obtain r'' anc' where q: "realities s q = Some r''" "reality_id r'' = q"
        "GetAncestorRealities N s r'' = Some (Inr anc')" "dom anc' = {a. reachable s r'' a}"
        by blast
      have "GetAncestorRealities (max n N) s r'' = Some (Inr anc')"
        using q(3) by (rule GetAncestorRealities_mono) simp
      then show ?thesis using q by blast
    qed
  qed
  then show ?case by blast
qed

lemma GetAncestorRealities_resolves:
  assumes "resolves s r"
  shows "\<exists>n anc. GetAncestorRealities n s r = Some (Inr anc) \<and> dom anc = {a. reachable s r a}"
  using assms
proof (induction rule: resolves.induct)
  case (1 r s)
  have "\<forall>p\<in>set (parentRealityIds r). \<exists>r'. realities s p = Some r' \<and> reality_id r' = p
             \<and> (\<exists>n anc. GetAncestorRealities n s r' = Some (Inr anc) \<and> dom anc = {a. reachable s r' a})"
    using 1 by blast
  from uniform_fuel [OF this] obtain N where
    N: "\<forall>p\<in>set (parentRealityIds r). \<exists>r'. realities s p = Some r' \<and> reality_id r' = p
             \<and> (\<exists>anc. GetAncestorRealities N s r' = Some (Inr anc) \<and> dom anc = {a. reachable s r' a})"
    by blast
  then have "\<forall>p\<in>set (parentRealityIds r). \<exists>r'. realities s p = Some r' \<and> reality_id r' = p"
    by blast
  from loadParentRealities_resolved [OF this, of "[]"]
  obtain al where al: "GetParentRealities s r = Inr al"
    "fst ` set al = set (parentRealityIds r)"
    "set al \<subseteq> {(p, r'). p \<in> set (parentRealityIds r) \<and> realities s p = Some r'}"
    by (auto simp: GetParentRealities_def)
  have "\<forall>(pid, par)\<in>set al. \<exists>anc. GetAncestorRealities N s par = Some (Inr anc)
            \<and> dom anc = {a. reachable s par a}"
    using al(3) N by fastforce
  from collectAncestors_dom [OF this, of Map.empty]
  obtain res where res: "collectAncestors (GetAncestorRealities N s) al Map.empty = Some (Inr res)"
    "dom res = (\<Union>(pid, par)\<in>set al. insert pid {a. reachable s par a})"
    by auto
  have "dom res = {a. reachable s r a}"
  proof (rule set_eqI)
    fix a
    show "a \<in> dom res \<longleftrightarrow> a \<in> {a. reachable s r a}"
    proof
      assume "a \<in> dom res"
      then obtain pid par where pp: "(pid, par) \<in> set al" "a = pid \<or> reachable s par a"
        unfolding res(2) by auto
      then have "pid \<in> set (parentRealityIds r)" "realities s pid = Some par"
        using al(3) by auto
      then show "a \<in> {a. reachable s r a}"
        using pp(2) by (auto intro: reachable.intros)
    next
      assume "a \<in> {a. reachable s r a}"
      then obtain p where p: "p \<in> set (parentRealityIds r)"
        "a = p \<or> (\<exists>r'. realities s p = Some r' \<and> reachable s r' a)"
        using reachable_iff [of s r a] by auto
      then obtain par where par: "(p, par) \<in> set al"
        using al(2) by force
      then have "realities s p = Some par" using al(3) by auto
      then have "a = p \<or> reachable s par a" using p(2) by auto
      then show "a \<in> dom res" unfolding res(2) using par by auto
    qed
  qed
  moreover have "GetAncestorRealities (Suc N) s r = Some (Inr res)"
    using al(1) res(1) by simp
  ultimately show ?case by blast
qed

text \<open>
  Claim C6. For a reality whose ancestor chain resolves, \<open>DescendsFrom\<close> returns, and
  it returns true exactly when the id is the reality's own id or is reachable from the
  reality along parent edges: some depth of recursion suffices, and from then on the
  answer is that one.
\<close>

theorem DescendsFrom_iff_reachable:
  assumes "resolves s r"
  shows "\<exists>n. \<forall>m\<ge>n. DescendsFrom m s r i = Some (Inr (i = reality_id r \<or> reachable s r i))"
proof -
  from GetAncestorRealities_resolves [OF assms]
  obtain n anc where n: "GetAncestorRealities n s r = Some (Inr anc)"
    "dom anc = {a. reachable s r a}" by blast
  have "\<forall>m\<ge>n. DescendsFrom m s r i = Some (Inr (i = reality_id r \<or> reachable s r i))"
  proof (intro allI impI)
    fix m assume "n \<le> m"
    with n(1) have "GetAncestorRealities m s r = Some (Inr anc)"
      by (rule GetAncestorRealities_mono)
    then show "DescendsFrom m s r i = Some (Inr (i = reality_id r \<or> reachable s r i))"
      using n(2) by (auto simp: DescendsFrom_def)
  qed
  then show ?thesis ..
qed

lemma resolves_ex_child: "resolves ex_ledger ex_child"
proof (rule resolves.intros)
  fix p assume "p \<in> set (parentRealityIds ex_child)"
  then have p: "p = MAIN_REALITY_ID" by (simp add: ex_defs2)
  have "resolves ex_ledger ex_main"
    by (rule resolves.intros) (simp add: ex_defs2)
  then show "\<exists>r'. realities ex_ledger p = Some r' \<and> reality_id r' = p \<and> resolves ex_ledger r'"
    unfolding p by (simp add: ex_defs2)
qed

lemma DescendsFrom_mono:
  assumes "DescendsFrom n s r i = Some v" and "n \<le> m"
  shows "DescendsFrom m s r i = Some v"
proof (cases "reality_id r = i")
  case True
  then show ?thesis using assms(1) by (simp add: DescendsFrom_def)
next
  case False
  then obtain w where w: "GetAncestorRealities n s r = Some w"
    using assms(1) by (auto simp: DescendsFrom_def split: option.splits)
  then have "GetAncestorRealities m s r = Some w"
    using assms(2) by (rule GetAncestorRealities_mono)
  with w False assms(1) show ?thesis by (simp add: DescendsFrom_def)
qed

theorem DescendsFrom_iff_reachable_witness:
  "resolves ex_ledger ex_child
   \<and> DescendsFrom (Suc (Suc 0)) ex_ledger ex_child MAIN_REALITY_ID = Some (Inr True)
   \<and> reachable ex_ledger ex_child MAIN_REALITY_ID
   \<and> DescendsFrom (Suc (Suc 0)) ex_ledger ex_child 9 = Some (Inr False)
   \<and> \<not> reachable ex_ledger ex_child 9"
proof -
  have ev: "DescendsFrom (Suc (Suc 0)) ex_ledger ex_child MAIN_REALITY_ID = Some (Inr True)"
    "DescendsFrom (Suc (Suc 0)) ex_ledger ex_child 9 = Some (Inr False)"
    by (simp_all add: ex_defs2 verify_defs)
  have r: "(i = reality_id ex_child \<or> reachable ex_ledger ex_child i) = b"
    if "DescendsFrom (Suc (Suc 0)) ex_ledger ex_child i = Some (Inr b)" for i b
  proof -
    from DescendsFrom_iff_reachable [OF resolves_ex_child, of i] obtain n where
      n: "\<forall>m\<ge>n. DescendsFrom m ex_ledger ex_child i
            = Some (Inr (i = reality_id ex_child \<or> reachable ex_ledger ex_child i))"
      by blast
    have "DescendsFrom (max n (Suc (Suc 0))) ex_ledger ex_child i = Some (Inr b)"
      using that by (rule DescendsFrom_mono) simp
    moreover have "DescendsFrom (max n (Suc (Suc 0))) ex_ledger ex_child i
            = Some (Inr (i = reality_id ex_child \<or> reachable ex_ledger ex_child i))"
      using n by simp
    ultimately show ?thesis by simp
  qed
  have "reachable ex_ledger ex_child MAIN_REALITY_ID"
    using r [OF ev(1)] by (simp add: ex_defs2)
  moreover have "\<not> reachable ex_ledger ex_child 9"
    using r [OF ev(2)] by (simp add: ex_defs2)
  ultimately show ?thesis using ev resolves_ex_child by simp
qed

section \<open>Verification of a transfer\<close>

lemma of_nat_colorSum_Cons:
  "(of_nat (colorSum c (b # bs)) :: 64 word) =
     (if color b = c then balance b else 0) + of_nat (colorSum c bs)"
  by (simp add: colorSum_def)

lemma colorSum_append: "colorSum c (xs @ ys) = colorSum c xs + colorSum c ys"
  by (simp add: colorSum_def)

lemma colorSum_absent: "c \<notin> color ` set bs \<Longrightarrow> colorSum c bs = 0"
  by (induction bs) (auto simp: colorSum_def)

lemma balanceOf_addBalances:
  "balanceOf (addBalances bs m) c = balanceOf m c + of_nat (colorSum c bs)"
  by (induction bs arbitrary: m) (auto simp: of_nat_colorSum_Cons balanceOf_def colorSum_def)

lemma dom_addBalances: "dom (addBalances bs m) = dom m \<union> color ` set bs"
  by (induction bs arbitrary: m) auto

lemma addBalances_append:
  "addBalances (xs @ ys) m = addBalances ys (addBalances xs m)"
  by (induction xs arbitrary: m) auto

lemma subtractBalances_append:
  "subtractBalances (xs @ ys) m = subtractBalances ys (subtractBalances xs m)"
  by (induction xs arbitrary: m) (auto simp: Let_def)

lemma subtractOutputs_flat:
  "subtractOutputs outputs m = subtractBalances (outputBalances outputs) m"
  by (induction outputs arbitrary: m)
     (auto simp: outputBalances_def subtractBalances_append)

lemma balanceOf_subtractBalances:
  "balanceOf (subtractBalances bs m) c = balanceOf m c - of_nat (colorSum c bs)"
  by (induction bs arbitrary: m)
     (auto simp: of_nat_colorSum_Cons balanceOf_def colorSum_def Let_def)

lemma dom_subtractBalances:
  "c \<in> dom (subtractBalances bs m) \<longleftrightarrow>
     (if c \<in> color ` set bs then balanceOf (subtractBalances bs m) c \<noteq> 0 else c \<in> dom m)"
proof (induction bs arbitrary: m)
  case Nil
  then show ?case by simp
next
  case (Cons b bs)
  define m' where "m' = m(color b \<mapsto> balanceOf m (color b) - balance b)"
  define m'' where "m'' = (if balanceOf m' (color b) = 0 then m'(color b := None) else m')"
  have step: "subtractBalances (b # bs) m = subtractBalances bs m''"
    by (simp add: m'_def m''_def Let_def)
  show ?case
  proof (cases "c \<in> color ` set bs")
    case True
    then show ?thesis using Cons.IH [of m''] step by simp
  next
    case False
    then have rest: "c \<in> dom (subtractBalances bs m'') \<longleftrightarrow> c \<in> dom m''"
      using Cons.IH [of m''] by simp
    have same: "balanceOf (subtractBalances bs m'') c = balanceOf m'' c"
      using False by (simp add: balanceOf_subtractBalances colorSum_absent)
    show ?thesis
    proof (cases "color b = c")
      case True
      have "c \<in> dom m'' \<longleftrightarrow> balanceOf m'' c \<noteq> 0"
        using True by (auto simp: m''_def m'_def balanceOf_def)
      then show ?thesis using True rest same step by simp
    next
      case False
      then have "c \<in> dom m'' \<longleftrightarrow> c \<in> dom m"
        by (auto simp: m''_def m'_def)
      then show ?thesis using False \<open>c \<notin> color ` set bs\<close> rest step by simp
    qed
  qed
qed

lemma verifyInputs_ok:
  assumes "\<forall>i\<in>set inputs. \<exists>x. transferOutputs s i = Some x
             \<and> DescendsFrom n s r (realityId x) = Some (Inr True)"
  shows "verifyInputs n s r inputs m = Some (Inr (addBalances (inputBalances s inputs) m))"
  using assms
  by (induction inputs arbitrary: m)
     (auto simp: inputBalances_def addBalances_append)

lemma word64_of_nat_diff_eq_0:
  "(of_nat a - of_nat b = (0 :: 64 word)) \<longleftrightarrow> a mod 2 ^ 64 = b mod 2 ^ 64"
  by (simp add: word_of_nat_eq_iff take_bit_eq_mod)

lemma verifyTransfer_balance:
  assumes ok: "\<forall>i\<in>set inputs. \<exists>x. transferOutputs s i = Some x
             \<and> DescendsFrom n s r (realityId x) = Some (Inr True)"
  shows "verifyTransfer n s r inputs outputs =
           Some (if \<forall>c. (c \<in> color ` set (outputBalances outputs) \<longrightarrow>
                           inputSum s inputs c mod 2 ^ 64 = outputSum outputs c mod 2 ^ 64)
                       \<and> (c \<notin> color ` set (outputBalances outputs) \<longrightarrow>
                           c \<notin> color ` set (inputBalances s inputs))
                 then Inr () else Inl UnbalancedTransfer)"
proof -
  let ?m = "addBalances (inputBalances s inputs) Map.empty"
  let ?f = "subtractBalances (outputBalances outputs) ?m"
  have v: "verifyInputs n s r inputs Map.empty = Some (Inr ?m)"
    by (rule verifyInputs_ok [OF ok])
  have bal: "balanceOf ?f c = of_nat (inputSum s inputs c) - of_nat (outputSum outputs c)" for c
  proof -
    have "balanceOf Map.empty c = 0" by (simp add: balanceOf_def)
    then show ?thesis
      by (simp add: balanceOf_subtractBalances balanceOf_addBalances inputSum_def outputSum_def)
  qed
  have mem: "c \<in> dom ?f \<longleftrightarrow>
      (if c \<in> color ` set (outputBalances outputs)
       then inputSum s inputs c mod 2 ^ 64 \<noteq> outputSum outputs c mod 2 ^ 64
       else c \<in> color ` set (inputBalances s inputs))" for c
    by (simp only: dom_subtractBalances [of c] bal word64_of_nat_diff_eq_0 dom_addBalances)
       simp
  have "dom ?f = {} \<longleftrightarrow>
      (\<forall>c. (c \<in> color ` set (outputBalances outputs) \<longrightarrow>
               inputSum s inputs c mod 2 ^ 64 = outputSum outputs c mod 2 ^ 64)
          \<and> (c \<notin> color ` set (outputBalances outputs) \<longrightarrow>
               c \<notin> color ` set (inputBalances s inputs)))"
  proof
    assume e: "dom ?f = {}"
    show "\<forall>c. (c \<in> color ` set (outputBalances outputs) \<longrightarrow>
               inputSum s inputs c mod 2 ^ 64 = outputSum outputs c mod 2 ^ 64)
          \<and> (c \<notin> color ` set (outputBalances outputs) \<longrightarrow>
               c \<notin> color ` set (inputBalances s inputs))"
    proof
      fix c
      have "c \<notin> dom ?f" using e by simp
      then show "(c \<in> color ` set (outputBalances outputs) \<longrightarrow>
               inputSum s inputs c mod 2 ^ 64 = outputSum outputs c mod 2 ^ 64)
          \<and> (c \<notin> color ` set (outputBalances outputs) \<longrightarrow>
               c \<notin> color ` set (inputBalances s inputs))"
        unfolding mem [of c] by (simp split: if_splits)
    qed
  next
    assume a: "\<forall>c. (c \<in> color ` set (outputBalances outputs) \<longrightarrow>
               inputSum s inputs c mod 2 ^ 64 = outputSum outputs c mod 2 ^ 64)
          \<and> (c \<notin> color ` set (outputBalances outputs) \<longrightarrow>
               c \<notin> color ` set (inputBalances s inputs))"
    have "c \<notin> dom ?f" for c
      unfolding mem [of c] using a by simp
    then show "dom ?f = {}" by blast
  qed
  note iff = this
  show ?thesis
  proof (cases "dom ?f = {}")
    case True
    have a: "verifyTransfer n s r inputs outputs = Some (Inr ())"
      unfolding verifyTransfer_def v subtractOutputs_flat using True
      by (simp del: dom_eq_empty_conv)
    from True iff
    have b: "\<forall>c. (c \<in> color ` set (outputBalances outputs) \<longrightarrow>
               inputSum s inputs c mod 2 ^ 64 = outputSum outputs c mod 2 ^ 64)
          \<and> (c \<notin> color ` set (outputBalances outputs) \<longrightarrow>
               c \<notin> color ` set (inputBalances s inputs))"
      by (rule rev_iffD1)
    show ?thesis by (simp only: a if_P [OF b])
  next
    case False
    have a: "verifyTransfer n s r inputs outputs = Some (Inl UnbalancedTransfer)"
      unfolding verifyTransfer_def v subtractOutputs_flat using False
      by (simp del: dom_eq_empty_conv)
    from False iff
    have b: "\<not> (\<forall>c. (c \<in> color ` set (outputBalances outputs) \<longrightarrow>
               inputSum s inputs c mod 2 ^ 64 = outputSum outputs c mod 2 ^ 64)
          \<and> (c \<notin> color ` set (outputBalances outputs) \<longrightarrow>
               c \<notin> color ` set (inputBalances s inputs)))"
      by blast
    show ?thesis by (simp only: a if_not_P [OF b])
  qed
qed

text \<open>
  Claim C5, as stated: with existing, reachable inputs, \<open>verifyTransfer\<close> succeeds
  exactly when the exact sums of the input balances and of the output balances agree for
  every color. The totals are \<open>uint64\<close> values that wrap. Here the two inputs carry
  \<open>2^63\<close> units each, the one output carries none, and the transfer is accepted.
\<close>

theorem verifyTransfer_accepts_wrapped_sum:
  "verifyTransfer 0 ex_ledger_big ex_main [(10, 20), (11, 20)] [(30, [\<lparr>color = 0, balance = 0\<rparr>])]
     = Some (Inr ())
   \<and> inputSum ex_ledger_big [(10, 20), (11, 20)] 0 = 18446744073709551616
   \<and> outputSum [(30, [\<lparr>color = 0, balance = 0\<rparr>])] 0 = 0"
  by (simp add: ex_defs2 verify_defs)

text \<open>
  Claim C5, amended: with existing, reachable inputs, \<open>verifyTransfer\<close> succeeds exactly
  when, for every color, the sum of the input balances and the sum of the output balances
  agree modulo \<open>2^64\<close>, and fails with the unbalanced-transfer error otherwise. This is
  for transfers in which no color occurs in an input balance and in no output balance
  with an input sum that is a multiple of \<open>2^64\<close>.
\<close>

theorem verifyTransfer_balanced_mod:
  assumes ok: "\<forall>i\<in>set inputs. \<exists>x. transferOutputs s i = Some x
             \<and> DescendsFrom n s r (realityId x) = Some (Inr True)"
    and noslip: "\<forall>c. c \<in> color ` set (inputBalances s inputs)
             \<and> c \<notin> color ` set (outputBalances outputs)
             \<longrightarrow> inputSum s inputs c mod 2 ^ 64 \<noteq> 0"
  shows "verifyTransfer n s r inputs outputs =
           Some (if \<forall>c. inputSum s inputs c mod 2 ^ 64 = outputSum outputs c mod 2 ^ 64
                 then Inr () else Inl UnbalancedTransfer)"
proof -
  have "(c \<in> color ` set (outputBalances outputs) \<longrightarrow>
           inputSum s inputs c mod 2 ^ 64 = outputSum outputs c mod 2 ^ 64)
      \<and> (c \<notin> color ` set (outputBalances outputs) \<longrightarrow>
           c \<notin> color ` set (inputBalances s inputs))
      \<longleftrightarrow> inputSum s inputs c mod 2 ^ 64 = outputSum outputs c mod 2 ^ 64" for c
  proof (cases "c \<in> color ` set (outputBalances outputs)")
    case True
    then show ?thesis by simp
  next
    case False
    then have o: "outputSum outputs c = 0"
      by (simp add: outputSum_def colorSum_absent)
    show ?thesis
    proof (cases "c \<in> color ` set (inputBalances s inputs)")
      case True
      then show ?thesis using False o noslip by auto
    next
      case False
      then have "inputSum s inputs c = 0"
        by (simp add: inputSum_def colorSum_absent)
      then show ?thesis using False o by simp
    qed
  qed
  then show ?thesis
    by (simp add: verifyTransfer_balance [OF ok])
qed

theorem verifyTransfer_balanced_mod_witness:
  "verifyTransfer 0 ex_ledger ex_main [(10, 20)] [(30, [\<lparr>color = 0, balance = 100\<rparr>])] = Some (Inr ())
   \<and> verifyTransfer 0 ex_ledger ex_main [(10, 20)] [(30, [\<lparr>color = 0, balance = 99\<rparr>])] = Some (Inl UnbalancedTransfer)"
proof -
  have ok: "\<forall>i\<in>set [(10, 20)]. \<exists>x. transferOutputs ex_ledger i = Some x
             \<and> DescendsFrom 0 ex_ledger ex_main (realityId x) = Some (Inr True)"
    by (simp add: ex_defs2 verify_defs)
  have ns: "\<forall>c. c \<in> color ` set (inputBalances ex_ledger [(10, 20)])
             \<and> c \<notin> color ` set (outputBalances [(30, [\<lparr>color = 0, balance = v\<rparr>])])
             \<longrightarrow> inputSum ex_ledger [(10, 20)] c mod 2 ^ 64 \<noteq> 0" for v
    by (simp add: ex_defs2 verify_defs)
  have eq: "\<forall>c. inputSum ex_ledger [(10, 20)] c mod 2 ^ 64
        = outputSum [(30, [\<lparr>color = 0, balance = 100\<rparr>])] c mod 2 ^ 64"
    by (simp add: ex_defs2 verify_defs)
  have ne: "\<not> (\<forall>c. inputSum ex_ledger [(10, 20)] c mod 2 ^ 64
        = outputSum [(30, [\<lparr>color = 0, balance = 99\<rparr>])] c mod 2 ^ 64)"
    by (simp add: ex_defs2 verify_defs exI [of _ 0])
  show ?thesis
    using verifyTransfer_balanced_mod [OF ok ns, of 100] verifyTransfer_balanced_mod [OF ok ns, of 99]
    by (simp only: if_P [OF eq] if_not_P [OF ne])
qed

text \<open>
  Claim C8, as stated: a transfer with a missing input fails with the missing-input
  error even when an earlier input fails the reachability check. The code checks
  existence and reachability input by input. Here the first input lives in reality 7,
  which MAIN does not descend from, the second input does not exist, and the error is
  the one of the first input.
\<close>

theorem verifyTransfer_reports_unreachable_before_missing:
  "transferOutputs ex_ledger_side (99, 99) = None
   \<and> verifyTransfer (Suc 0) ex_ledger_side ex_main [(12, 20), (99, 99)] [] = Some (Inl InputNotInReality)"
  by (simp add: ex_defs2 verify_defs)

text \<open>
  Claim C8, amended: verification fails with the missing-input error when an input does
  not exist and every input before it in the list exists and is reachable from the
  booking reality.
\<close>

theorem verifyTransfer_first_failure_missing:
  assumes "\<forall>i\<in>set before. \<exists>x. transferOutputs s i = Some x
             \<and> DescendsFrom n s r (realityId x) = Some (Inr True)"
    and "transferOutputs s missing = None"
  shows "verifyTransfer n s r (before @ missing # after) outputs = Some (Inl MissingInput)"
proof -
  have "verifyInputs n s r (before @ missing # after) m = Some (Inl MissingInput)" for m
    using assms by (induction before arbitrary: m) auto
  then show ?thesis by (simp add: verifyTransfer_def)
qed

theorem verifyTransfer_first_failure_missing_witness:
  "transferOutputs ex_ledger (99, 99) = None
   \<and> verifyTransfer 0 ex_ledger ex_main ([(10, 20)] @ (99, 99) # []) [] = Some (Inl MissingInput)"
proof -
  have ok: "\<forall>i\<in>set [(10, 20)]. \<exists>x. transferOutputs ex_ledger i = Some x
             \<and> DescendsFrom 0 ex_ledger ex_main (realityId x) = Some (Inr True)"
    by (simp add: ex_defs2 verify_defs)
  have m: "transferOutputs ex_ledger (99, 99) = None"
    by (simp add: ex_defs2)
  from verifyTransfer_first_failure_missing [OF ok m] m show ?thesis by simp
qed



section \<open>Elevation\<close>









section \<open>Consuming inputs\<close>







text \<open>
  Claim C7. A transfer that verification rejects is not booked: \<open>bookTransfer\<close> returns
  the error of \<open>verifyTransfer\<close> and the ledger state is the one it was given, so no
  input is consumed and no conflict set, reality or output is created.
\<close>

theorem bookTransfer_rejected_unchanged:
  assumes "verifyTransfer n s r inputs outputs = Some (Inl e)"
  shows "bookTransfer n ac agg r hash inputs outputs s = Some (Some e, s)"
  using assms by (simp add: bookTransfer_def)

theorem bookTransfer_rejected_unchanged_witness:
  "verifyTransfer (Suc 0) ex_ledger_side ex_main [(12, 20)] [(30, [\<lparr>color = 0, balance = 5\<rparr>])]
     = Some (Inl InputNotInReality)
   \<and> bookTransfer (Suc 0) addConsumer (AggregateRealities ex_hash) ex_main 50 [(12, 20)]
        [(30, [\<lparr>color = 0, balance = 5\<rparr>])] ex_ledger_side
     = Some (Some InputNotInReality, ex_ledger_side)"
proof -
  have v: "verifyTransfer (Suc 0) ex_ledger_side ex_main [(12, 20)] [(30, [\<lparr>color = 0, balance = 5\<rparr>])]
     = Some (Inl InputNotInReality)"
    by (simp add: ex_defs2 verify_defs)
  from bookTransfer_rejected_unchanged [OF v] v show ?thesis by simp
qed

section \<open>Booking the outputs of a transfer\<close>

















end
